theory Spec2Isabelle
  imports Main "HOL-Library.Sublist"
begin

section \<open>Text\<close>

text \<open>
  A Python \<open>str\<close> is represented by its UTF-8 encoding, a \<^typ>\<open>string\<close>.
  Concatenation, \<open>join\<close>, the emptiness test, equality, prefixes, suffixes and the
  substring test \<open>in\<close> of two strings agree on both sides of the encoding (UTF-8 is
  an injective, self-synchronising homomorphism for concatenation), so every string
  operation the program performs is the list operation on the encoded text.
  The template's literals outside ASCII are written as lists of Unicode code points
  under \<open>utf8\<close>.
\<close>

definition utf8_encode :: "nat \<Rightarrow> string" where
  "utf8_encode c =
     (if c < 0x80 then [char_of c]
      else if c < 0x800 then
        [char_of (0xC0 + c div 0x40), char_of (0x80 + c mod 0x40)]
      else if c < 0x10000 then
        [char_of (0xE0 + c div 0x1000), char_of (0x80 + (c div 0x40) mod 0x40),
         char_of (0x80 + c mod 0x40)]
      else
        [char_of (0xF0 + c div 0x40000), char_of (0x80 + (c div 0x1000) mod 0x40),
         char_of (0x80 + (c div 0x40) mod 0x40), char_of (0x80 + c mod 0x40)])"

definition utf8 :: "nat list \<Rightarrow> string" where
  "utf8 cps = concat (map utf8_encode cps)"

definition nl :: string where
  "nl = [CHR 0x0A]"

text \<open>Python's \<open>sep.join(xs)\<close> on a list of strings.\<close>

fun join :: "string \<Rightarrow> string list \<Rightarrow> string" where
  "join sep [] = []"
| "join sep [x] = x"
| "join sep (x # y # ys) = x @ sep @ join sep (y # ys)"

section \<open>The mock evaluator\<close>

text \<open>
  \<open>evaluate_mock\<close> returns one f-string. The template is transcribed line by line;
  the five interpolations are the function's arguments and the comma-join of the
  materials. The request's fields are strings and the materials a list of strings, as
  the form delivers them.
\<close>

definition scores_block :: string where
  "scores_block =
     ''## '' @ utf8 [0x6A21, 0x62DF, 0x8BC4, 0x5206, 0x7ED3, 0x679C] @ nl @
     ''- **'' @ utf8 [0x7EFC, 0x5408, 0x8BC4, 0x5206] @ ''**: 8.2/10'' @ nl @
     ''- **'' @ utf8 [0x521B, 0x65B0, 0x6027] @ ''**: 7.5/10'' @ nl @
     ''- **'' @ utf8 [0x6280, 0x672F, 0x96BE, 0x5EA6] @ ''**: 8.0/10'' @ nl @
     ''- **'' @ utf8 [0x5B8C, 0x6210, 0x5EA6] @ ''**: 8.5/10'' @ nl @
     ''- **'' @ utf8 [0x6587, 0x6863, 0x8D28, 0x91CF] @ ''**: 7.0/10'' @ nl"

definition strengths_block :: string where
  "strengths_block =
     ''## '' @ utf8 [0x9879, 0x76EE, 0x4F18, 0x52BF] @ nl @
     utf8 [0x2705] @ '' '' @
       utf8 [0x9879, 0x76EE, 0x6784, 0x601D, 0x6E05, 0x6670, 0xFF0C, 0x76EE, 0x6807,
             0x660E, 0x786E] @ ''  '' @ nl @
     utf8 [0x2705] @ '' '' @
       utf8 [0x6280, 0x672F, 0x9009, 0x578B, 0x5408, 0x7406, 0xFF0C, 0x7B26, 0x5408,
             0x5F53, 0x524D, 0x6280, 0x672F, 0x8D8B, 0x52BF] @ ''  '' @ nl @
     utf8 [0x2705] @ '' '' @
       utf8 [0x529F, 0x80FD, 0x8BBE, 0x8BA1, 0x5B8C, 0x6574, 0xFF0C, 0x7528, 0x6237,
             0x4F53, 0x9A8C, 0x8003, 0x8651, 0x5468, 0x5230] @ ''  '' @ nl"

definition suggestions_block :: string where
  "suggestions_block =
     ''## '' @ utf8 [0x6539, 0x8FDB, 0x5EFA, 0x8BAE] @ nl @
     utf8 [0x1F4DD] @ '' '' @
       utf8 [0x53EF, 0x4EE5, 0x8FDB, 0x4E00, 0x6B65, 0x4F18, 0x5316, 0x9879, 0x76EE,
             0x6587, 0x6863, 0x7ED3, 0x6784] @ ''  '' @ nl @
     utf8 [0x1F4DD] @ '' '' @
       utf8 [0x8003, 0x8651, 0x6DFB, 0x52A0, 0x66F4, 0x591A, 0x521B, 0x65B0, 0x529F,
             0x80FD, 0x70B9] @ ''  '' @ nl @
     utf8 [0x1F4DD] @ '' '' @
       utf8 [0x5EFA, 0x8BAE, 0x5B8C, 0x5584, 0x6D4B, 0x8BD5, 0x7528, 0x4F8B] @ ''  '' @ nl"

definition followup_block :: string where
  "followup_block =
     ''## '' @ utf8 [0x540E, 0x7EED, 0x5EFA, 0x8BAE] @ nl @
     ''1. '' @ utf8 [0x7EE7, 0x7EED, 0x6DF1, 0x5165, 0x76F8, 0x5173, 0x6280, 0x672F,
                     0x7684, 0x5B66, 0x4E60] @ nl @
     ''2. '' @ utf8 [0x53C2, 0x4E0E, 0x66F4, 0x591A, 0x5B9E, 0x9645, 0x9879, 0x76EE,
                     0x79EF, 0x7D2F, 0x7ECF, 0x9A8C] @ nl @
     ''3. '' @ utf8 [0x5173, 0x6CE8, 0x884C, 0x4E1A, 0x6700, 0x65B0, 0x53D1, 0x5C55,
                     0x8D8B, 0x52BF] @ nl"

definition disclaimer_line :: string where
  "disclaimer_line =
     ''*'' @ utf8 [0x6CE8, 0xFF1A, 0x8FD9, 0x662F, 0x6A21, 0x62DF, 0x8BC4, 0x4EF7, 0xFF0C,
                   0x8BF7, 0x914D, 0x7F6E] @
     ''Coze API Token'' @ utf8 [0x548C, 0x5DE5, 0x4F5C, 0x6D41] @ ''ID'' @
     utf8 [0x540E, 0x83B7, 0x53D6, 0x771F, 0x5B9E, 0x8BC4, 0x4EF7] @ ''*'' @ nl"

text \<open>The label of the materials line, U+63D0 U+4EA4 U+6750 U+6599 between the bold marks.\<close>

definition materials_label :: string where
  "materials_label = ''- **'' @ utf8 [0x63D0, 0x4EA4, 0x6750, 0x6599] @ ''**: ''"

definition evaluate_mock ::
  "string \<Rightarrow> string \<Rightarrow> string \<Rightarrow> string \<Rightarrow> string list \<Rightarrow> string" where
  "evaluate_mock project_name project_description project_field student_level
       submission_materials =
     nl @
     ''# '' @ utf8 [0x1F393] @ '' '' @ utf8 [0x9879, 0x76EE, 0x8BC4, 0x4EF7, 0x62A5, 0x544A] @
       '' ('' @ utf8 [0x6A21, 0x62DF, 0x6570, 0x636E] @ '')'' @ nl @
     nl @
     ''## '' @ utf8 [0x9879, 0x76EE, 0x4FE1, 0x606F] @ nl @
     ''- **'' @ utf8 [0x9879, 0x76EE, 0x540D, 0x79F0] @ ''**: '' @ project_name @ nl @
     ''- **'' @ utf8 [0x9879, 0x76EE, 0x9886, 0x57DF] @ ''**: '' @ project_field @ nl @
     ''- **'' @ utf8 [0x5B66, 0x751F, 0x6C34, 0x5E73] @ ''**: '' @ student_level @ nl @
     materials_label @ join '', '' submission_materials @ nl @
     nl @
     ''## '' @ utf8 [0x9879, 0x76EE, 0x63CF, 0x8FF0] @ nl @
     project_description @ nl @
     nl @
     scores_block @
     nl @
     strengths_block @
     nl @
     suggestions_block @
     nl @
     ''## '' @ utf8 [0x5B66, 0x4E60, 0x6536, 0x83B7] @ nl @
     utf8 [0x901A, 0x8FC7, 0x672C, 0x9879, 0x76EE, 0xFF0C, 0x5B66, 0x751F, 0x80FD, 0x591F,
           0x638C, 0x63E1] @ ''**'' @ project_field @ ''**'' @
       utf8 [0x9886, 0x57DF, 0x7684, 0x57FA, 0x7840, 0x77E5, 0x8BC6, 0x548C, 0x5B9E, 0x8DF5,
             0x6280, 0x80FD, 0xFF0C, 0x63D0, 0x5347, 0x95EE, 0x9898, 0x89E3, 0x51B3, 0x80FD,
             0x529B, 0x548C, 0x56E2, 0x961F, 0x534F, 0x4F5C, 0x80FD, 0x529B, 0x3002] @ nl @
     nl @
     followup_block @
     nl @
     ''---'' @ nl @
     nl @
     disclaimer_line"

section \<open>Python values, exceptions and the runtime\<close>

text \<open>
  The stream events and the payloads handed to the extraction routine are duck-typed:
  the program probes them with \<open>hasattr\<close>, \<open>in\<close> and subscripting. \<open>pyval\<close> is the
  universe of such values: the JSON values \<open>json.loads\<close> builds, and objects. A float
  is represented by its \<open>repr\<close> text (the only thing the program can do with one is
  print it). A dict is the list of its items in insertion order, keyed by strings; a
  lookup reads the first item of a key. An object \<open>PObj cls attrs protocol\<close> has a
  class name, its attributes, and what it offers to \<open>in\<close> and to subscripting:
  nothing (\<open>Plain\<close>), the items of a mapping, or the elements it yields when it is
  iterated (an exhausted stream yields none). \<open>str\<close> of a value does not raise.
\<close>

datatype 'v protocol =
    Plain
  | Mapping "(string \<times> 'v) list"
  | Iterable "'v list"

datatype pyval =
    PNone
  | PBool bool
  | PInt int
  | PFloat string
  | PStr string
  | PList "pyval list"
  | PDict "(string \<times> pyval) list"
  | PObj string "(string \<times> pyval) list" "pyval protocol"

text \<open>
  An exception (an instance of \<open>Exception\<close>, which is what both handlers catch) is
  its class name and the text \<open>str(e)\<close> gives.
\<close>

datatype exn = Exn (exn_class: string) (exn_str: string)

text \<open>The client object \<open>Coze(auth=TokenAuth(token=t), base_url=u)\<close>.\<close>

datatype client = Coze (client_token: string) (client_base_url: string)

text \<open>
  What \<open>coze.workflows.runs.stream\<close> returns: an iterable that yields
  \<open>response_events\<close> in order and then stops, or raises \<open>response_error\<close> after
  them. \<open>response_object\<close> is the same object as a value, for the case where it is
  handed to the extraction routine. A stream ends: its events are a list.
\<close>

datatype response =
  Response (response_object: pyval) (response_events: "pyval list")
    (response_error: "exn option")

text \<open>
  Everything outside the repository that the program calls: the import probe of
  \<open>cozepy\<close>, the process environment (after \<open>load_dotenv\<close>), the library's
  constant, constructor and streaming call, \<open>json.loads\<close>, \<open>str\<close> on values that
  are not strings and on their types, and \<open>print\<close>. \<open>coze_init t u\<close> is the
  exception the constructor raises for token \<open>t\<close> and base URL \<open>u\<close>, if it raises.
  \<open>print_raises text\<close> is the exception \<open>print(text)\<close> raises, if it raises (an
  encoding error of the standard output, a closed pipe); what is written is not part of
  any result. \<open>cozepy_available\<close> is the flag the finished import has set: with
  \<open>False\<close>, the \<open>print\<close> of line 13 has returned.
\<close>

record runtime =
  cozepy_available :: bool
  coze_cn_base_url :: string
  getenv :: "string \<Rightarrow> string option"
  coze_init :: "string \<Rightarrow> string \<Rightarrow> exn option"
  workflows_runs_stream :: "client \<Rightarrow> string \<Rightarrow> pyval \<Rightarrow> exn + response"
  json_loads :: "string \<Rightarrow> exn + pyval"
  str_of :: "pyval \<Rightarrow> string"
  str_of_type :: "pyval \<Rightarrow> string"
  print_raises :: "string \<Rightarrow> exn option"

fun is_str :: "pyval \<Rightarrow> bool" where
  "is_str (PStr s) = True"
| "is_str v = False"

text \<open>\<open>str(v)\<close>: a string is returned as it is.\<close>

fun py_str :: "runtime \<Rightarrow> pyval \<Rightarrow> string" where
  "py_str rt (PStr s) = s"
| "py_str rt v = str_of rt v"

fun type_name :: "pyval \<Rightarrow> string" where
  "type_name PNone = ''NoneType''"
| "type_name (PBool b) = ''bool''"
| "type_name (PInt i) = ''int''"
| "type_name (PFloat r) = ''float''"
| "type_name (PStr s) = ''str''"
| "type_name (PList xs) = ''list''"
| "type_name (PDict kvs) = ''dict''"
| "type_name (PObj cls attrs protocol) = cls"

definition quoted :: "string \<Rightarrow> string" where
  "quoted s = [CHR 0x27] @ s @ [CHR 0x27]"

definition type_error :: "string \<Rightarrow> exn" where
  "type_error msg = Exn ''TypeError'' msg"

text \<open>
  \<open>getattr(v, name)\<close> for the names the program probes (\<open>message\<close>, \<open>content\<close>,
  \<open>output\<close>, \<open>data\<close>): \<open>None\<close> is \<open>AttributeError\<close>, so \<open>hasattr\<close> is
  \<open>py_getattr v name \<noteq> None\<close>. No built-in type has one of these attributes.
\<close>

fun py_getattr :: "pyval \<Rightarrow> string \<Rightarrow> pyval option" where
  "py_getattr (PObj cls attrs protocol) name = map_of attrs name"
| "py_getattr v name = None"

text \<open>
  \<open>v + t\<close> for a string \<open>t\<close>: concatenation on a string, \<open>TypeError\<close> otherwise
  (no class of the objects defines \<open>+\<close>). The texts of the \<open>TypeError\<close>s are
  CPython's.
\<close>

fun py_add_str :: "pyval \<Rightarrow> string \<Rightarrow> exn + string" where
  "py_add_str (PStr s) t = Inr (s @ t)"
| "py_add_str (PList xs) t =
     Inl (type_error (''can only concatenate list (not '' @ [CHR 0x22] @ ''str'' @
                      [CHR 0x22] @ '') to list''))"
| "py_add_str v t =
     Inl (type_error (''unsupported operand type(s) for +: '' @ quoted (type_name v) @
                      '' and '' @ quoted ''str''))"

text \<open>\<open>key in v\<close> for a string \<open>key\<close>.\<close>

fun py_contains :: "pyval \<Rightarrow> string \<Rightarrow> exn + bool" where
  "py_contains (PDict kvs) key = Inr (key \<in> set (map fst kvs))"
| "py_contains (PStr s) key = Inr (sublist key s)"
| "py_contains (PList xs) key = Inr (PStr key \<in> set xs)"
| "py_contains (PObj cls attrs (Mapping kvs)) key = Inr (key \<in> set (map fst kvs))"
| "py_contains (PObj cls attrs (Iterable xs)) key = Inr (PStr key \<in> set xs)"
| "py_contains v key =
     Inl (type_error (''argument of type '' @ quoted (type_name v) @ '' is not iterable''))"

text \<open>\<open>v[key]\<close> for a string \<open>key\<close>.\<close>

fun lookup_item :: "(string \<times> pyval) list \<Rightarrow> string \<Rightarrow> exn + pyval" where
  "lookup_item kvs key =
     (case map_of kvs key of
        Some v \<Rightarrow> Inr v
      | None \<Rightarrow> Inl (Exn ''KeyError'' (quoted key)))"

fun py_getitem :: "pyval \<Rightarrow> string \<Rightarrow> exn + pyval" where
  "py_getitem (PDict kvs) key = lookup_item kvs key"
| "py_getitem (PObj cls attrs (Mapping kvs)) key = lookup_item kvs key"
| "py_getitem (PStr s) key = Inl (type_error ''string indices must be integers'')"
| "py_getitem (PList xs) key =
     Inl (type_error ''list indices must be integers or slices, not str'')"
| "py_getitem v key =
     Inl (type_error (quoted (type_name v) @ '' object is not subscriptable''))"

section \<open>The texts the program prints\<close>

text \<open>
  The warning of line 26, and the labels of the f-strings of lines 56, 88 and 89 (each
  label ends with a colon and a space).
\<close>

definition token_warning :: string where
  "token_warning =
     utf8 [0x8B66, 0x544A] @ '': '' @ utf8 [0x672A, 0x627E, 0x5230] @ ''COZE_API_TOKEN'' @
     utf8 [0x73AF, 0x5883, 0x53D8, 0x91CF, 0xFF0C, 0x4F7F, 0x7528, 0x6A21, 0x62DF, 0x6A21,
           0x5F0F]"

definition extraction_error_label :: string where
  "extraction_error_label = utf8 [0x6587, 0x672C, 0x63D0, 0x53D6, 0x9519, 0x8BEF] @ '': ''"

definition event_type_label :: string where
  "event_type_label = utf8 [0x4E8B, 0x4EF6, 0x7C7B, 0x578B] @ '': ''"

definition event_content_label :: string where
  "event_content_label = utf8 [0x4E8B, 0x4EF6, 0x5185, 0x5BB9] @ '': ''"

section \<open>The client\<close>

text \<open>
  \<open>get_coze_client\<close>: \<open>Inr None\<close> is the returned \<open>None\<close>, \<open>Inl e\<close> an exception
  of the warning's \<open>print\<close> or of the constructor. \<open>not coze_api_token\<close> holds for an
  absent and for an empty token; the branch prints the warning and returns \<open>None\<close>.
\<close>

definition warn_no_token :: "runtime \<Rightarrow> exn + client option" where
  "warn_no_token rt =
     (case print_raises rt token_warning of
        Some e \<Rightarrow> Inl e
      | None \<Rightarrow> Inr None)"

definition get_coze_client :: "runtime \<Rightarrow> exn + client option" where
  "get_coze_client rt =
     (if \<not> cozepy_available rt then Inr None
      else
        (case getenv rt ''COZE_API_TOKEN'' of
           None \<Rightarrow> warn_no_token rt
         | Some coze_api_token \<Rightarrow>
             if coze_api_token = [] then warn_no_token rt
             else
               (case coze_init rt coze_api_token (coze_cn_base_url rt) of
                  Some e \<Rightarrow> Inl e
                | None \<Rightarrow> Inr (Some (Coze coze_api_token (coze_cn_base_url rt))))))"

section \<open>Markdown extraction\<close>

text \<open>The \<open>if hasattr / elif in / else\<close> chain: the \<open>data\<close> field, if there is one.\<close>

definition lookup_data :: "pyval \<Rightarrow> exn + pyval option" where
  "lookup_data response_data =
     (case py_getattr response_data ''data'' of
        Some data \<Rightarrow> Inr (Some data)
      | None \<Rightarrow>
          (case py_contains response_data ''data'' of
             Inl e \<Rightarrow> Inl e
           | Inr present \<Rightarrow>
               if present then
                 (case py_getitem response_data ''data'' of
                    Inl e \<Rightarrow> Inl e
                  | Inr data \<Rightarrow> Inr (Some data))
               else Inr None))"

text \<open>The body of the \<open>try\<close> of \<open>extract_markdown_text\<close>.\<close>

definition extract_try :: "runtime \<Rightarrow> pyval \<Rightarrow> exn + string" where
  "extract_try rt response =
     (case (case response of PStr s \<Rightarrow> json_loads rt s | _ \<Rightarrow> Inr response) of
        Inl e \<Rightarrow> Inl e
      | Inr response_data \<Rightarrow>
          (case lookup_data response_data of
             Inl e \<Rightarrow> Inl e
           | Inr None \<Rightarrow> Inr (py_str rt response_data)
           | Inr (Some data) \<Rightarrow>
               (case data of
                  PStr s \<Rightarrow> Inr s
                | _ \<Rightarrow> Inr (py_str rt data))))"

text \<open>
  \<open>extract_markdown_text\<close>: the handler prints the exception and then returns
  \<open>str(response)\<close>; an exception of that \<open>print\<close> leaves the function.
\<close>

definition extract_markdown_text :: "runtime \<Rightarrow> pyval \<Rightarrow> exn + string" where
  "extract_markdown_text rt response =
     (case extract_try rt response of
        Inr text \<Rightarrow> Inr text
      | Inl e \<Rightarrow>
          (case print_raises rt (extraction_error_label @ exn_str e) of
             Some e' \<Rightarrow> Inl e'
           | None \<Rightarrow> Inr (py_str rt response)))"

section \<open>The remote evaluation\<close>

text \<open>
  One iteration of the loop over the stream: the two \<open>print\<close>s, of the event's type
  and of the event, then the \<open>if\<close>/\<open>elif\<close> chain. The text the iteration adds to
  \<open>output_text\<close>, or the exception that leaves the loop.
\<close>

definition event_text :: "runtime \<Rightarrow> pyval \<Rightarrow> exn + string" where
  "event_text rt event =
     (case print_raises rt (event_type_label @ str_of_type rt event) of
        Some e \<Rightarrow> Inl e
      | None \<Rightarrow>
          (case print_raises rt (event_content_label @ py_str rt event) of
             Some e \<Rightarrow> Inl e
           | None \<Rightarrow>
               (case (case py_getattr event ''message'' of
                        Some message \<Rightarrow> py_getattr message ''content''
                      | None \<Rightarrow> None) of
                  Some content \<Rightarrow> py_add_str content nl
                | None \<Rightarrow>
                    (case py_getattr event ''content'' of
                       Some content \<Rightarrow> py_add_str content nl
                     | None \<Rightarrow>
                         (case py_getattr event ''output'' of
                            Some output \<Rightarrow> Inr (py_str rt output @ nl)
                          | None \<Rightarrow> Inr [])))))"

fun consume_events :: "runtime \<Rightarrow> pyval list \<Rightarrow> string \<Rightarrow> exn + string" where
  "consume_events rt [] output_text = Inr output_text"
| "consume_events rt (event # events) output_text =
     (case event_text rt event of
        Inl e \<Rightarrow> Inl e
      | Inr text \<Rightarrow> consume_events rt events (output_text @ text))"

definition parameters_of ::
  "string \<Rightarrow> string \<Rightarrow> string \<Rightarrow> string \<Rightarrow> string list \<Rightarrow> pyval" where
  "parameters_of project_name project_description project_field student_level
       submission_materials =
     PDict [(''project_name'', PStr project_name),
            (''project_description'', PStr project_description),
            (''project_field'', PStr project_field),
            (''student_level'', PStr student_level),
            (''submission_materials'', PList (map PStr submission_materials))]"

text \<open>The body of the \<open>try\<close> of \<open>evaluate_with_coze\<close>.\<close>

definition workflow_try ::
  "runtime \<Rightarrow> client \<Rightarrow> string \<Rightarrow> string \<Rightarrow> string \<Rightarrow> string \<Rightarrow> string \<Rightarrow> string list \<Rightarrow>
   exn + string" where
  "workflow_try rt coze workflow_id project_name project_description project_field
       student_level submission_materials =
     (case workflows_runs_stream rt coze workflow_id
             (parameters_of project_name project_description project_field student_level
                submission_materials) of
        Inl e \<Rightarrow> Inl e
      | Inr response \<Rightarrow>
          (case consume_events rt (response_events response) [] of
             Inl e \<Rightarrow> Inl e
           | Inr output_text \<Rightarrow>
               (case response_error response of
                  Some e \<Rightarrow> Inl e
                | None \<Rightarrow>
                    extract_markdown_text rt
                      (if output_text \<noteq> [] then PStr output_text
                       else response_object response))))"

text \<open>The label of the banner: U+274C, \<open>Coze\<close>, U+5DE5 U+4F5C U+6D41 U+9519 U+8BEF, U+FF1A.\<close>

definition error_banner :: string where
  "error_banner =
     utf8 [0x274C] @ '' Coze'' @ utf8 [0x5DE5, 0x4F5C, 0x6D41, 0x9519, 0x8BEF, 0xFF1A]"

text \<open>
  \<open>evaluate_with_coze\<close>: the client and the workflow id are resolved before the
  \<open>try\<close>; a client object is truthy, so \<open>not coze\<close> holds for \<open>None\<close> only.
\<close>

definition evaluate_with_coze ::
  "runtime \<Rightarrow> string \<Rightarrow> string \<Rightarrow> string \<Rightarrow> string \<Rightarrow> string list \<Rightarrow> exn + string" where
  "evaluate_with_coze rt project_name project_description project_field student_level
       submission_materials =
     (case get_coze_client rt of
        Inl e \<Rightarrow> Inl e
      | Inr None \<Rightarrow>
          Inr (evaluate_mock project_name project_description project_field student_level
                 submission_materials)
      | Inr (Some coze) \<Rightarrow>
          (case getenv rt ''WORKFLOW_ID'' of
             None \<Rightarrow>
               Inr (evaluate_mock project_name project_description project_field
                      student_level submission_materials)
           | Some workflow_id \<Rightarrow>
               if workflow_id = [] then
                 Inr (evaluate_mock project_name project_description project_field
                        student_level submission_materials)
               else
                 (case workflow_try rt coze workflow_id project_name project_description
                         project_field student_level submission_materials of
                    Inr markdown_text \<Rightarrow> Inr markdown_text
                  | Inl e \<Rightarrow>
                      Inr (error_banner @ exn_str e @ nl @ nl @
                           evaluate_mock project_name project_description project_field
                             student_level submission_materials))))"

definition evaluate_project ::
  "runtime \<Rightarrow> string \<Rightarrow> string \<Rightarrow> string \<Rightarrow> string \<Rightarrow> string list \<Rightarrow> exn + string" where
  "evaluate_project rt project_name project_description project_field student_level
       submission_materials =
     evaluate_with_coze rt project_name project_description project_field student_level
       submission_materials"

section \<open>The specification's reading of the aggregator and of the data field\<close>







text \<open>
  The specification's \<open>data\<close> field of a structured payload: looked up by attribute
  first, then by key.
\<close>

fun item_of :: "pyval \<Rightarrow> string \<Rightarrow> pyval option" where
  "item_of (PDict kvs) key = map_of kvs key"
| "item_of (PObj cls attrs (Mapping kvs)) key = map_of kvs key"
| "item_of v key = None"

definition spec_data_field :: "pyval \<Rightarrow> pyval option" where
  "spec_data_field payload =
     (case py_getattr payload ''data'' of
        Some data \<Rightarrow> Some data
      | None \<Rightarrow> item_of payload ''data'')"

text \<open>The first line of a text.\<close>

definition first_line_of :: "string \<Rightarrow> string" where
  "first_line_of s = takeWhile (\<lambda>c. c \<noteq> CHR 0x0A) s"

section \<open>Example runtimes and events\<close>

text \<open>
  A runtime with the library installed, both settings present and a standard output
  that takes every text. Its \<open>json_loads\<close>
  agrees with \<open>json.loads\<close> on the three inputs the examples use: the documents
  \<open>{"data": "X"}\<close> and \<open>5\<close>, and the text \<open>hello\<close>, which is not JSON.
\<close>

definition data_X_document :: string where
  "data_X_document =
     ''{'' @ [CHR 0x22] @ ''data'' @ [CHR 0x22] @ '': '' @ [CHR 0x22] @ ''X'' @ [CHR 0x22] @
     ''}''"

definition example_env :: "string \<Rightarrow> string option" where
  "example_env =
     map_of [(''COZE_API_TOKEN'', ''pat_token''), (''WORKFLOW_ID'', ''7400000000'')]"

definition example_stream :: response where
  "example_stream = Response (PObj ''Stream'' [] (Iterable [])) [] None"

definition example_runtime :: runtime where
  "example_runtime =
     \<lparr> cozepy_available = True,
       coze_cn_base_url = ''https://api.coze.cn'',
       getenv = example_env,
       coze_init = (\<lambda>token url. None),
       workflows_runs_stream = (\<lambda>coze workflow_id parameters. Inr example_stream),
       json_loads =
         (\<lambda>s. if s = data_X_document then Inr (PDict [(''data'', PStr ''X'')])
              else if s = ''5'' then Inr (PInt 5)
              else Inl (Exn ''JSONDecodeError'' ''Expecting value: line 1 column 1 (char 0)'')),
       str_of = (\<lambda>v. ''<'' @ type_name v @ ''>''),
       str_of_type = (\<lambda>v. ''<class '' @ quoted (type_name v) @ ''>''),
       print_raises = (\<lambda>text. None) \<rparr>"

text \<open>No credentials configured.\<close>

definition runtime_no_credentials :: runtime where
  "runtime_no_credentials = example_runtime \<lparr> getenv := (\<lambda>name. None) \<rparr>"

text \<open>The constructor of the client raises, with both settings present.\<close>

definition constructor_error :: exn where
  "constructor_error = Exn ''RuntimeError'' ''client construction failed''"

definition runtime_constructor_raises :: runtime where
  "runtime_constructor_raises =
     example_runtime \<lparr> coze_init := (\<lambda>token url. Some constructor_error) \<rparr>"

text \<open>The constructor raises, the token is present and the workflow id is absent.\<close>

definition runtime_no_workflow_id :: runtime where
  "runtime_no_workflow_id =
     runtime_constructor_raises
       \<lparr> getenv := map_of [(''COZE_API_TOKEN'', ''pat_token'')] \<rparr>"

text \<open>The streaming call raises.\<close>

definition stream_error :: exn where
  "stream_error = Exn ''ConnectError'' ''All connection attempts failed''"

definition runtime_stream_raises :: runtime where
  "runtime_stream_raises =
     example_runtime
       \<lparr> workflows_runs_stream := (\<lambda>coze workflow_id parameters. Inl stream_error) \<rparr>"

text \<open>An event with a \<open>content\<close> field only.\<close>

definition content_event :: "pyval \<Rightarrow> pyval" where
  "content_event content = PObj ''Event'' [(''content'', content)] Plain"

text \<open>The stream yields three events with \<open>content\<close> fields \<open>a\<close>, \<open>b\<close>, \<open>c\<close>.\<close>

definition abc_events :: "pyval list" where
  "abc_events =
     [content_event (PStr ''a''), content_event (PStr ''b''), content_event (PStr ''c'')]"

definition runtime_abc_stream :: runtime where
  "runtime_abc_stream =
     example_runtime
       \<lparr> workflows_runs_stream :=
           (\<lambda>coze workflow_id parameters.
              Inr (Response (PObj ''Stream'' [] (Iterable [])) abc_events None)) \<rparr>"

text \<open>The stream yields one event and then raises.\<close>

definition runtime_stream_breaks :: runtime where
  "runtime_stream_breaks =
     example_runtime
       \<lparr> workflows_runs_stream :=
           (\<lambda>coze workflow_id parameters.
              Inr (Response (PObj ''Stream'' [] (Iterable [])) [content_event (PStr ''a'')]
                     (Some stream_error))) \<rparr>"

text \<open>The second event of the stream has the number \<open>7\<close> as its \<open>content\<close>.\<close>

definition runtime_number_content :: runtime where
  "runtime_number_content =
     example_runtime
       \<lparr> workflows_runs_stream :=
           (\<lambda>coze workflow_id parameters.
              Inr (Response (PObj ''Stream'' [] (Iterable []))
                     [content_event (PStr ''a''), content_event (PInt 7)] None)) \<rparr>"

text \<open>
  A standard output with the ASCII encoding: \<open>print\<close> raises \<open>UnicodeEncodeError\<close> on
  a text with a character outside ASCII (a byte with the top bit set). The exception's
  text is shortened.
\<close>

definition unicode_encode_error :: exn where
  "unicode_encode_error = Exn ''UnicodeEncodeError'' ''ordinal not in range(128)''"

definition ascii_print :: "string \<Rightarrow> exn option" where
  "ascii_print text = (if list_ex digit7 text then Some unicode_encode_error else None)"

text \<open>The stream of three events, and the ASCII standard output.\<close>

definition runtime_ascii_stdout :: runtime where
  "runtime_ascii_stdout = runtime_abc_stream \<lparr> print_raises := ascii_print \<rparr>"

text \<open>No credentials configured, and the ASCII standard output.\<close>

definition runtime_no_credentials_ascii :: runtime where
  "runtime_no_credentials_ascii = runtime_no_credentials \<lparr> print_raises := ascii_print \<rparr>"

text \<open>The library is not installed.\<close>

definition runtime_no_library :: runtime where
  "runtime_no_library = example_runtime \<lparr> cozepy_available := False \<rparr>"

text \<open>The token is present, the workflow id is empty.\<close>

definition runtime_empty_workflow_id :: runtime where
  "runtime_empty_workflow_id =
     example_runtime
       \<lparr> getenv := map_of [(''COZE_API_TOKEN'', ''pat_token''), (''WORKFLOW_ID'', [])] \<rparr>"

text \<open>The streaming call raises an exception whose text has two lines.\<close>

definition two_line_error :: exn where
  "two_line_error =
     Exn ''ValidationError''
       (''1 validation error for WorkflowEvent'' @ nl @ ''id: field required'')"

definition runtime_two_line_error :: runtime where
  "runtime_two_line_error =
     example_runtime
       \<lparr> workflows_runs_stream := (\<lambda>coze workflow_id parameters. Inl two_line_error) \<rparr>"

text \<open>
  The three events arrive and are printed; the standard output is gone when the handler
  of \<open>extract_markdown_text\<close> prints.
\<close>

definition broken_pipe :: exn where
  "broken_pipe = Exn ''BrokenPipeError'' ''[Errno 32] Broken pipe''"

definition runtime_print_breaks :: runtime where
  "runtime_print_breaks =
     runtime_abc_stream
       \<lparr> print_raises :=
           (\<lambda>text. if prefix extraction_error_label text then Some broken_pipe else None) \<rparr>"

section \<open>Basic facts\<close>

lemma sublist_here: "sublist x (x @ r)"
  by (rule sublist_append_rightI)

lemma sublist_skip: "sublist x r \<Longrightarrow> sublist x (a @ r)"
  using sublist_append by blast

lemma error_banner_one_line: "CHR 0x0A \<notin> set error_banner"
  by (simp add: error_banner_def utf8_def utf8_encode_def char_of_def)

lemma mock_has_no_banner: "\<not> prefix error_banner (evaluate_mock n d f l ms)"
  by (simp add: error_banner_def utf8_def utf8_encode_def evaluate_mock_def nl_def char_of_def)

lemma first_line:
  assumes "CHR 0x0A \<notin> set xs"
  shows "first_line_of (xs @ nl @ ys) = xs"
  using assms unfolding first_line_of_def by (induction xs) (auto simp: nl_def)

lemma first_line_has_no_newline: "CHR 0x0A \<notin> set (first_line_of s)"
  unfolding first_line_of_def by (induction s) auto

lemma get_coze_client_unavailable:
  "\<not> cozepy_available rt \<Longrightarrow> get_coze_client rt = Inr None"
  by (simp add: get_coze_client_def)

lemma get_coze_client_no_token:
  "cozepy_available rt \<Longrightarrow>
   getenv rt ''COZE_API_TOKEN'' = None \<or> getenv rt ''COZE_API_TOKEN'' = Some [] \<Longrightarrow>
   get_coze_client rt =
     (case print_raises rt token_warning of Some e \<Rightarrow> Inl e | None \<Rightarrow> Inr None)"
  by (auto simp: get_coze_client_def warn_no_token_def)

lemma evaluate_with_coze_no_client:
  "get_coze_client rt = Inr None \<Longrightarrow>
   evaluate_with_coze rt n d f l ms = Inr (evaluate_mock n d f l ms)"
  by (simp add: evaluate_with_coze_def)

lemma evaluate_with_coze_no_workflow:
  "get_coze_client rt = Inr c \<Longrightarrow>
   getenv rt ''WORKFLOW_ID'' = None \<or> getenv rt ''WORKFLOW_ID'' = Some [] \<Longrightarrow>
   evaluate_with_coze rt n d f l ms = Inr (evaluate_mock n d f l ms)"
  by (auto simp: evaluate_with_coze_def split: option.splits)

lemma evaluate_with_coze_remote:
  "get_coze_client rt = Inr (Some coze) \<Longrightarrow> getenv rt ''WORKFLOW_ID'' = Some w \<Longrightarrow> w \<noteq> [] \<Longrightarrow>
   evaluate_with_coze rt n d f l ms =
     (case workflow_try rt coze w n d f l ms of
        Inr markdown_text \<Rightarrow> Inr markdown_text
      | Inl e \<Rightarrow> Inr (error_banner @ exn_str e @ nl @ nl @ evaluate_mock n d f l ms))"
  by (simp add: evaluate_with_coze_def)

lemma workflow_try_raises_iff:
  "workflow_try rt coze w n d f l ms = Inl e \<longleftrightarrow>
     workflows_runs_stream rt coze w (parameters_of n d f l ms) = Inl e \<or>
     (\<exists>r. workflows_runs_stream rt coze w (parameters_of n d f l ms) = Inr r \<and>
        (consume_events rt (response_events r) [] = Inl e \<or>
         (\<exists>t. consume_events rt (response_events r) [] = Inr t \<and>
            (response_error r = Some e \<or>
             response_error r = None \<and>
             extract_markdown_text rt
               (if t \<noteq> [] then PStr t else response_object r) = Inl e))))"
  by (auto simp: workflow_try_def split: sum.splits option.splits)








lemma item_of_found:
  "item_of p key = Some v \<Longrightarrow> py_contains p key = Inr True \<and> py_getitem p key = Inr v"
proof (induction p key rule: item_of.induct)
  case (1 kvs key)
  then have "key \<in> fst ` set kvs"
    by (metis domI dom_map_of_conv_image_fst item_of.simps(1))
  with 1 show ?case by simp
next
  case (2 cls attrs kvs key)
  then have "key \<in> fst ` set kvs"
    by (metis domI dom_map_of_conv_image_fst item_of.simps(2))
  with 2 show ?case by simp
qed simp_all

lemma lookup_data_field:
  assumes "spec_data_field p = Some data"
  shows "lookup_data p = Inr (Some data)"
proof (cases "py_getattr p ''data''")
  case None
  with assms have "item_of p ''data'' = Some data"
    by (simp add: spec_data_field_def)
  from item_of_found[OF this] None show ?thesis
    by (simp add: lookup_data_def)
next
  case (Some a)
  with assms show ?thesis
    by (simp add: spec_data_field_def lookup_data_def)
qed

lemma extract_try_structured:
  "\<not> is_str p \<Longrightarrow> extract_try rt p =
     (case lookup_data p of
        Inl e \<Rightarrow> Inl e
      | Inr None \<Rightarrow> Inr (py_str rt p)
      | Inr (Some data) \<Rightarrow> Inr (py_str rt data))"
  by (cases p) (auto simp: extract_try_def split: sum.splits option.splits pyval.splits)

lemma extract_try_parsed:
  "json_loads rt s = Inr p \<Longrightarrow> extract_try rt (PStr s) =
     (case lookup_data p of
        Inl e \<Rightarrow> Inl e
      | Inr None \<Rightarrow> Inr (py_str rt p)
      | Inr (Some data) \<Rightarrow> Inr (py_str rt data))"
  by (auto simp: extract_try_def split: sum.splits option.splits pyval.splits)


lemma sublist_here2: "sublist (a @ b) (a @ b @ r)"
  by (metis append.assoc sublist_append_rightI)

lemma sublist_here3: "sublist (a @ b @ c) (a @ b @ c @ r)"
  by (metis append.assoc sublist_append_rightI)

lemma sublist_here6: "sublist (a @ b @ c @ d @ e @ g) (a @ b @ c @ d @ e @ g @ r)"
  by (metis append.assoc sublist_append_rightI)

lemma evaluate_mock_template:
  "\<exists>s0 s1 s2 s3 s4 s5 s6.
     sublist scores_block s5 \<and> suffix disclaimer_line s6 \<and>
     (\<forall>n d f l ms.
        evaluate_mock n d f l ms =
          s0 @ n @ s1 @ f @ s2 @ l @ s3 @ join '', '' ms @ s4 @ d @ s5 @ f @ s6)"
proof -
  let ?s5 = "nl @ nl @ scores_block @ nl @ strengths_block @ nl @ suggestions_block @ nl @
     ''## '' @ utf8 [0x5B66, 0x4E60, 0x6536, 0x83B7] @ nl @
     utf8 [0x901A, 0x8FC7, 0x672C, 0x9879, 0x76EE, 0xFF0C, 0x5B66, 0x751F, 0x80FD, 0x591F,
           0x638C, 0x63E1] @ ''**''"
  let ?s6 = "''**'' @
       utf8 [0x9886, 0x57DF, 0x7684, 0x57FA, 0x7840, 0x77E5, 0x8BC6, 0x548C, 0x5B9E, 0x8DF5,
             0x6280, 0x80FD, 0xFF0C, 0x63D0, 0x5347, 0x95EE, 0x9898, 0x89E3, 0x51B3, 0x80FD,
             0x529B, 0x548C, 0x56E2, 0x961F, 0x534F, 0x4F5C, 0x80FD, 0x529B, 0x3002] @ nl @
     nl @ followup_block @ nl @ ''---'' @ nl @ nl @ disclaimer_line"
  have a: "sublist scores_block ?s5"
    by (rule sublist_here | rule sublist_skip)+
  have b: "suffix disclaimer_line ?s6"
    by (metis append.assoc suffixI)
  have c: "\<forall>n d f l ms. evaluate_mock n d f l ms =
      (nl @
     ''# '' @ utf8 [0x1F393] @ '' '' @ utf8 [0x9879, 0x76EE, 0x8BC4, 0x4EF7, 0x62A5, 0x544A] @
       '' ('' @ utf8 [0x6A21, 0x62DF, 0x6570, 0x636E] @ '')'' @ nl @
     nl @
     ''## '' @ utf8 [0x9879, 0x76EE, 0x4FE1, 0x606F] @ nl @
     ''- **'' @ utf8 [0x9879, 0x76EE, 0x540D, 0x79F0] @ ''**: '') @ n @
     (nl @ ''- **'' @ utf8 [0x9879, 0x76EE, 0x9886, 0x57DF] @ ''**: '') @ f @
     (nl @ ''- **'' @ utf8 [0x5B66, 0x751F, 0x6C34, 0x5E73] @ ''**: '') @ l @
     (nl @ materials_label) @ join '', '' ms @
     (nl @ nl @ ''## '' @ utf8 [0x9879, 0x76EE, 0x63CF, 0x8FF0] @ nl) @ d @ ?s5 @ f @ ?s6"
    by (simp add: evaluate_mock_def)
  from a b c show ?thesis by blast
qed


text \<open>The five scores are literals of \<open>scores_block\<close>.\<close>

lemma scores_are_literals:
  "sublist ''8.2/10'' scores_block \<and> sublist ''7.5/10'' scores_block \<and>
   sublist ''8.0/10'' scores_block \<and> sublist ''8.5/10'' scores_block \<and>
   sublist ''7.0/10'' scores_block"
proof -
  have split: "''**: 8.2/10'' = ''**: '' @ ''8.2/10''" "''**: 7.5/10'' = ''**: '' @ ''7.5/10''"
    "''**: 8.0/10'' = ''**: '' @ ''8.0/10''" "''**: 8.5/10'' = ''**: '' @ ''8.5/10''"
    "''**: 7.0/10'' = ''**: '' @ ''7.0/10''"
    by simp_all
  have "sublist ''8.2/10'' scores_block"
    unfolding scores_block_def split append_assoc by (rule sublist_here | rule sublist_skip)+
  moreover have "sublist ''7.5/10'' scores_block"
    unfolding scores_block_def split append_assoc by (rule sublist_here | rule sublist_skip)+
  moreover have "sublist ''8.0/10'' scores_block"
    unfolding scores_block_def split append_assoc by (rule sublist_here | rule sublist_skip)+
  moreover have "sublist ''8.5/10'' scores_block"
    unfolding scores_block_def split append_assoc by (rule sublist_here | rule sublist_skip)+
  moreover have "sublist ''7.0/10'' scores_block"
    unfolding scores_block_def split append_assoc by (rule sublist_here | rule sublist_skip)+
  ultimately show ?thesis by simp
qed

lemmas example_simps =
  example_runtime_def example_env_def example_stream_def runtime_no_credentials_def
  runtime_constructor_raises_def runtime_no_workflow_id_def runtime_stream_raises_def
  runtime_abc_stream_def runtime_stream_breaks_def runtime_number_content_def
  runtime_ascii_stdout_def runtime_no_credentials_ascii_def runtime_no_library_def
  runtime_empty_workflow_id_def runtime_two_line_error_def runtime_print_breaks_def
  constructor_error_def stream_error_def

lemma ascii_print_token_warning: "ascii_print token_warning = Some unicode_encode_error"
  by (simp add: ascii_print_def token_warning_def utf8_def utf8_encode_def char_of_def bit_Suc_0_iff)


lemma ascii_print_event_type:
  "ascii_print (event_type_label @ text) = Some unicode_encode_error"
  by (simp add: ascii_print_def event_type_label_def utf8_def utf8_encode_def char_of_def bit_Suc_0_iff)

lemma event_labels_differ:
  "\<not> prefix extraction_error_label (event_type_label @ text)"
  "\<not> prefix extraction_error_label (event_content_label @ text)"
  by (simp_all add: extraction_error_label_def event_type_label_def event_content_label_def
      utf8_def utf8_encode_def char_of_def bit_Suc_0_iff)

section \<open>The claims\<close>

text \<open>
  C1 (as amended). The \<open>try\<close> of \<open>evaluate_with_coze\<close> starts after the client and the
  workflow id are resolved. Whenever \<open>get_coze_client\<close> returns (a client or \<open>None\<close>),
  \<open>evaluate_project\<close> returns a string: every error of parameter marshaling, of the
  streaming call, of the consumption of a stream that ends, and of extraction is caught.
  An exception the client's constructor raises inside \<open>get_coze_client\<close> is outside
  the \<open>try\<close> and is raised by \<open>evaluate_project\<close>; so is every exception of
  \<open>get_coze_client\<close>.
\<close>

theorem guarded_errors_are_caught:
  "(get_coze_client rt = Inr coze \<longrightarrow> (\<exists>text. evaluate_project rt n d f l ms = Inr text)) \<and>
   (get_coze_client rt = Inl e \<longrightarrow> evaluate_project rt n d f l ms = Inl e)"
  by (auto simp: evaluate_project_def evaluate_with_coze_def split: sum.splits option.splits)

text \<open>
  Both parts at concrete runtimes: one whose streaming call raises, one whose
  constructor raises.
\<close>

theorem guarded_errors_are_caught_witness:
  "get_coze_client runtime_stream_raises = Inr (Some (Coze ''pat_token'' ''https://api.coze.cn'')) \<and>
   (\<exists>text. evaluate_project runtime_stream_raises ''X'' ''demo'' ''technology''
      ''undergraduate'' [''code'', ''docs''] = Inr text) \<and>
   get_coze_client runtime_constructor_raises = Inl constructor_error \<and>
   evaluate_project runtime_constructor_raises ''X'' ''demo'' ''technology''
      ''undergraduate'' [''code'', ''docs''] = Inl constructor_error"
proof -
  have a: "get_coze_client runtime_stream_raises =
      Inr (Some (Coze ''pat_token'' ''https://api.coze.cn''))"
    by (simp add: get_coze_client_def example_simps)
  have b: "get_coze_client runtime_constructor_raises = Inl constructor_error"
    by (simp add: get_coze_client_def example_simps)
  from a b
    guarded_errors_are_caught[of runtime_stream_raises
      "Some (Coze ''pat_token'' ''https://api.coze.cn'')" "''X''" "''demo''" "''technology''"
      "''undergraduate''" "[''code'', ''docs'']"]
    guarded_errors_are_caught[of runtime_constructor_raises _ "''X''" "''demo''" "''technology''"
      "''undergraduate''" "[''code'', ''docs'']" constructor_error]
  show ?thesis by blast
qed

text \<open>
  C1 as stated fails: with the library installed, a token and a workflow id present and a
  constructor that raises, the exception escapes \<open>evaluate_project\<close>.
\<close>

theorem constructor_error_escapes:
  "evaluate_project runtime_constructor_raises ''X'' ''demo'' ''technology'' ''undergraduate''
     [''code'', ''docs''] = Inl constructor_error"
  by (simp add: evaluate_project_def evaluate_with_coze_def get_coze_client_def example_simps)

text \<open>
  C2 (as amended). If the library is unavailable, \<open>evaluate_project\<close> returns exactly
  \<open>evaluate_mock\<close>'s output for the same request. If the token is absent or empty
  it does so when the \<open>print\<close> of the warning (line 26, outside any \<open>try\<close>) returns;
  an exception of that \<open>print\<close> is raised by \<open>evaluate_project\<close>. If the workflow id
  is absent or empty it does so when \<open>get_coze_client\<close>, which runs first, has
  returned. The mock report does not start with the error banner.
\<close>

theorem degraded_mode_returns_mock:
  "(\<not> cozepy_available rt \<longrightarrow>
      evaluate_project rt n d f l ms = Inr (evaluate_mock n d f l ms)) \<and>
   (cozepy_available rt \<and>
    (getenv rt ''COZE_API_TOKEN'' = None \<or> getenv rt ''COZE_API_TOKEN'' = Some []) \<and>
    print_raises rt token_warning = None \<longrightarrow>
      evaluate_project rt n d f l ms = Inr (evaluate_mock n d f l ms)) \<and>
   (cozepy_available rt \<and>
    (getenv rt ''COZE_API_TOKEN'' = None \<or> getenv rt ''COZE_API_TOKEN'' = Some []) \<and>
    print_raises rt token_warning = Some e \<longrightarrow>
      evaluate_project rt n d f l ms = Inl e) \<and>
   ((getenv rt ''WORKFLOW_ID'' = None \<or> getenv rt ''WORKFLOW_ID'' = Some []) \<and>
    get_coze_client rt = Inr coze \<longrightarrow>
      evaluate_project rt n d f l ms = Inr (evaluate_mock n d f l ms)) \<and>
   \<not> prefix error_banner (evaluate_mock n d f l ms)"
proof -
  have a: "evaluate_project rt n d f l ms = Inr (evaluate_mock n d f l ms)"
    if "\<not> cozepy_available rt"
    using that
    by (simp add: evaluate_project_def evaluate_with_coze_no_client get_coze_client_unavailable)
  have b: "evaluate_project rt n d f l ms = Inr (evaluate_mock n d f l ms)"
    if "cozepy_available rt"
      and "getenv rt ''COZE_API_TOKEN'' = None \<or> getenv rt ''COZE_API_TOKEN'' = Some []"
      and "print_raises rt token_warning = None"
    using that get_coze_client_no_token[of rt]
    by (simp add: evaluate_project_def evaluate_with_coze_no_client)
  have c: "evaluate_project rt n d f l ms = Inl e"
    if "cozepy_available rt"
      and "getenv rt ''COZE_API_TOKEN'' = None \<or> getenv rt ''COZE_API_TOKEN'' = Some []"
      and "print_raises rt token_warning = Some e"
    using that get_coze_client_no_token[of rt]
    by (simp add: evaluate_project_def evaluate_with_coze_def)
  have d: "evaluate_project rt n d f l ms = Inr (evaluate_mock n d f l ms)"
    if "getenv rt ''WORKFLOW_ID'' = None \<or> getenv rt ''WORKFLOW_ID'' = Some []"
      and "get_coze_client rt = Inr coze"
    using that evaluate_with_coze_no_workflow[of rt coze n d f l ms]
    by (simp add: evaluate_project_def)
  from a b c d mock_has_no_banner[of n d f l ms] show ?thesis by blast
qed

text \<open>
  Four runtimes: the library is not installed; no credentials (the scenario of the
  specification); no credentials and an ASCII standard output; an empty workflow id.
\<close>

theorem degraded_mode_returns_mock_witness:
  "evaluate_project runtime_no_library ''X'' ''demo'' ''technology'' ''undergraduate''
     [''code'', ''docs''] =
   Inr (evaluate_mock ''X'' ''demo'' ''technology'' ''undergraduate'' [''code'', ''docs'']) \<and>
   evaluate_project runtime_no_credentials ''X'' ''demo'' ''technology'' ''undergraduate''
     [''code'', ''docs''] =
   Inr (evaluate_mock ''X'' ''demo'' ''technology'' ''undergraduate'' [''code'', ''docs'']) \<and>
   evaluate_project runtime_no_credentials_ascii ''X'' ''demo'' ''technology'' ''undergraduate''
     [''code'', ''docs''] = Inl unicode_encode_error \<and>
   evaluate_project runtime_empty_workflow_id ''X'' ''demo'' ''technology'' ''undergraduate''
     [''code'', ''docs''] =
   Inr (evaluate_mock ''X'' ''demo'' ''technology'' ''undergraduate'' [''code'', ''docs''])"
proof -
  have a: "\<not> cozepy_available runtime_no_library"
    by (simp add: example_simps)
  have b: "cozepy_available runtime_no_credentials"
    "getenv runtime_no_credentials ''COZE_API_TOKEN'' = None"
    "print_raises runtime_no_credentials token_warning = None"
    by (simp_all add: example_simps)
  have c: "cozepy_available runtime_no_credentials_ascii"
    "getenv runtime_no_credentials_ascii ''COZE_API_TOKEN'' = None"
    "print_raises runtime_no_credentials_ascii token_warning = Some unicode_encode_error"
    by (simp_all add: example_simps ascii_print_token_warning)
  have d: "getenv runtime_empty_workflow_id ''WORKFLOW_ID'' = Some []"
    "get_coze_client runtime_empty_workflow_id =
       Inr (Some (Coze ''pat_token'' ''https://api.coze.cn''))"
    by (simp_all add: get_coze_client_def example_simps)
  from a
    degraded_mode_returns_mock[of runtime_no_library "''X''" "''demo''" "''technology''"
      "''undergraduate''" "[''code'', ''docs'']"]
  have "evaluate_project runtime_no_library ''X'' ''demo'' ''technology'' ''undergraduate''
     [''code'', ''docs''] =
   Inr (evaluate_mock ''X'' ''demo'' ''technology'' ''undergraduate'' [''code'', ''docs''])"
    by blast
  moreover from b
    degraded_mode_returns_mock[of runtime_no_credentials "''X''" "''demo''" "''technology''"
      "''undergraduate''" "[''code'', ''docs'']"]
  have "evaluate_project runtime_no_credentials ''X'' ''demo'' ''technology'' ''undergraduate''
     [''code'', ''docs''] =
   Inr (evaluate_mock ''X'' ''demo'' ''technology'' ''undergraduate'' [''code'', ''docs''])"
    by blast
  moreover from c
    degraded_mode_returns_mock[of runtime_no_credentials_ascii "''X''" "''demo''"
      "''technology''" "''undergraduate''" "[''code'', ''docs'']" unicode_encode_error]
  have "evaluate_project runtime_no_credentials_ascii ''X'' ''demo'' ''technology''
     ''undergraduate'' [''code'', ''docs''] = Inl unicode_encode_error"
    by blast
  moreover from d
    degraded_mode_returns_mock[of runtime_empty_workflow_id "''X''" "''demo''" "''technology''"
      "''undergraduate''" "[''code'', ''docs'']" _
      "Some (Coze ''pat_token'' ''https://api.coze.cn'')"]
  have "evaluate_project runtime_empty_workflow_id ''X'' ''demo'' ''technology''
     ''undergraduate'' [''code'', ''docs''] =
   Inr (evaluate_mock ''X'' ''demo'' ''technology'' ''undergraduate'' [''code'', ''docs''])"
    by blast
  ultimately show ?thesis by blast
qed

text \<open>
  C2 as stated fails: no credentials are configured, the library is installed, and the
  standard output has the ASCII encoding, so the \<open>print\<close> of the warning raises
  \<open>UnicodeEncodeError\<close>, which leaves \<open>get_coze_client\<close>, \<open>evaluate_with_coze\<close> and
  \<open>evaluate_project\<close>.
\<close>

theorem missing_token_warning_print_raises:
  "cozepy_available runtime_no_credentials_ascii \<and>
   getenv runtime_no_credentials_ascii ''COZE_API_TOKEN'' = None \<and>
   getenv runtime_no_credentials_ascii ''WORKFLOW_ID'' = None \<and>
   print_raises runtime_no_credentials_ascii token_warning = Some unicode_encode_error \<and>
   evaluate_project runtime_no_credentials_ascii ''X'' ''demo'' ''technology'' ''undergraduate''
     [''code'', ''docs''] = Inl unicode_encode_error"
  by (simp add: evaluate_project_def evaluate_with_coze_def get_coze_client_def
      warn_no_token_def example_simps ascii_print_token_warning)

text \<open>
  C3 (as amended). On the remote path (a client, a non-empty workflow id), if the
  streaming call raises \<open>e\<close>, or the loop over the stream raises \<open>e\<close> (in an
  iteration, or from the stream after its events), then \<open>evaluate_project\<close> returns the
  banner label followed by \<open>str(e)\<close>, a blank line and \<open>evaluate_mock\<close>'s output for
  the same request: the output starts with the label, \<open>str(e)\<close> and a newline, and
  ends with the mock report. The banner is the output's first line exactly when
  \<open>str(e)\<close> has no newline.
\<close>

theorem remote_failure_banner:
  assumes client: "get_coze_client rt = Inr (Some coze)"
    and wf: "getenv rt ''WORKFLOW_ID'' = Some w" "w \<noteq> []"
    and raises:
      "workflows_runs_stream rt coze w (parameters_of n d f l ms) = Inl e \<or>
       (\<exists>r. workflows_runs_stream rt coze w (parameters_of n d f l ms) = Inr r \<and>
          (consume_events rt (response_events r) [] = Inl e \<or>
           (\<exists>t. consume_events rt (response_events r) [] = Inr t \<and>
                response_error r = Some e)))"
  shows "\<exists>out. evaluate_project rt n d f l ms = Inr out \<and>
           out = error_banner @ exn_str e @ nl @ nl @ evaluate_mock n d f l ms \<and>
           prefix (error_banner @ exn_str e @ nl) out \<and>
           suffix (evaluate_mock n d f l ms) out \<and>
           (first_line_of out = error_banner @ exn_str e) = (CHR 0x0A \<notin> set (exn_str e))"
proof -
  let ?out = "error_banner @ exn_str e @ nl @ nl @ evaluate_mock n d f l ms"
  from raises have "workflow_try rt coze w n d f l ms = Inl e"
    unfolding workflow_try_raises_iff by blast
  with client wf have res: "evaluate_project rt n d f l ms = Inr ?out"
    by (simp add: evaluate_project_def evaluate_with_coze_remote)
  have pre: "prefix (error_banner @ exn_str e @ nl) ?out"
    by (metis append.assoc prefixI)
  have suf: "suffix (evaluate_mock n d f l ms) ?out"
    by (metis append.assoc suffixI)
  have line: "first_line_of ?out = error_banner @ exn_str e"
    if "CHR 0x0A \<notin> set (exn_str e)"
  proof -
    from that error_banner_one_line have "CHR 0x0A \<notin> set (error_banner @ exn_str e)"
      by simp
    from first_line[OF this, of "nl @ evaluate_mock n d f l ms"] show ?thesis
      by simp
  qed
  have lines: "first_line_of ?out \<noteq> error_banner @ exn_str e"
    if "CHR 0x0A \<in> set (exn_str e)"
  proof
    assume "first_line_of ?out = error_banner @ exn_str e"
    with first_line_has_no_newline[of ?out] that show False
      by simp
  qed
  from res pre suf line lines show ?thesis by blast
qed

text \<open>
  Four runtimes: the streaming call raises a connection error; the stream raises it
  after its first event; the second event's \<open>content\<close> is a number, so the
  concatenation raises \<open>TypeError\<close>; the \<open>print\<close> of the first iteration raises.
\<close>

theorem remote_failure_banner_witness:
  "evaluate_project runtime_stream_raises ''X'' ''demo'' ''technology'' ''undergraduate''
     [''code'', ''docs''] =
   Inr (error_banner @ ''All connection attempts failed'' @ nl @ nl @
        evaluate_mock ''X'' ''demo'' ''technology'' ''undergraduate'' [''code'', ''docs'']) \<and>
   first_line_of
     (error_banner @ ''All connection attempts failed'' @ nl @ nl @
      evaluate_mock ''X'' ''demo'' ''technology'' ''undergraduate'' [''code'', ''docs'']) =
   error_banner @ ''All connection attempts failed'' \<and>
   evaluate_project runtime_stream_breaks ''X'' ''demo'' ''technology'' ''undergraduate''
     [''code'', ''docs''] =
   Inr (error_banner @ ''All connection attempts failed'' @ nl @ nl @
        evaluate_mock ''X'' ''demo'' ''technology'' ''undergraduate'' [''code'', ''docs'']) \<and>
   evaluate_project runtime_number_content ''X'' ''demo'' ''technology'' ''undergraduate''
     [''code'', ''docs''] =
   Inr (error_banner @
        (''unsupported operand type(s) for +: '' @ quoted ''int'' @ '' and '' @ quoted ''str'') @
        nl @ nl @
        evaluate_mock ''X'' ''demo'' ''technology'' ''undergraduate'' [''code'', ''docs'']) \<and>
   evaluate_project runtime_ascii_stdout ''X'' ''demo'' ''technology'' ''undergraduate''
     [''code'', ''docs''] =
   Inr (error_banner @ ''ordinal not in range(128)'' @ nl @ nl @
        evaluate_mock ''X'' ''demo'' ''technology'' ''undergraduate'' [''code'', ''docs''])"
proof -
  let ?coze = "Coze ''pat_token'' ''https://api.coze.cn''"
  let ?p = "parameters_of ''X'' ''demo'' ''technology'' ''undergraduate'' [''code'', ''docs'']"
  let ?type_error = "type_error (''unsupported operand type(s) for +: '' @ quoted ''int'' @
    '' and '' @ quoted ''str'')"
  have a: "get_coze_client runtime_stream_raises = Inr (Some ?coze)"
    "get_coze_client runtime_stream_breaks = Inr (Some ?coze)"
    "get_coze_client runtime_number_content = Inr (Some ?coze)"
    "get_coze_client runtime_ascii_stdout = Inr (Some ?coze)"
    by (simp_all add: get_coze_client_def example_simps)
  have b: "getenv runtime_stream_raises ''WORKFLOW_ID'' = Some ''7400000000''"
    "getenv runtime_stream_breaks ''WORKFLOW_ID'' = Some ''7400000000''"
    "getenv runtime_number_content ''WORKFLOW_ID'' = Some ''7400000000''"
    "getenv runtime_ascii_stdout ''WORKFLOW_ID'' = Some ''7400000000''"
    by (simp_all add: example_simps)
  have c1: "workflows_runs_stream runtime_stream_raises ?coze ''7400000000'' ?p =
        Inl stream_error \<or>
      (\<exists>r. workflows_runs_stream runtime_stream_raises ?coze ''7400000000'' ?p = Inr r \<and>
         (consume_events runtime_stream_raises (response_events r) [] = Inl stream_error \<or>
          (\<exists>t. consume_events runtime_stream_raises (response_events r) [] = Inr t \<and>
               response_error r = Some stream_error)))"
    by (simp add: example_simps)
  have c2: "workflows_runs_stream runtime_stream_breaks ?coze ''7400000000'' ?p =
        Inl stream_error \<or>
      (\<exists>r. workflows_runs_stream runtime_stream_breaks ?coze ''7400000000'' ?p = Inr r \<and>
         (consume_events runtime_stream_breaks (response_events r) [] = Inl stream_error \<or>
          (\<exists>t. consume_events runtime_stream_breaks (response_events r) [] = Inr t \<and>
               response_error r = Some stream_error)))"
    by (simp add: example_simps content_event_def event_text_def)
  have c3: "workflows_runs_stream runtime_number_content ?coze ''7400000000'' ?p =
        Inl ?type_error \<or>
      (\<exists>r. workflows_runs_stream runtime_number_content ?coze ''7400000000'' ?p = Inr r \<and>
         (consume_events runtime_number_content (response_events r) [] = Inl ?type_error \<or>
          (\<exists>t. consume_events runtime_number_content (response_events r) [] = Inr t \<and>
               response_error r = Some ?type_error)))"
    by (simp add: example_simps content_event_def event_text_def)
  have c4: "workflows_runs_stream runtime_ascii_stdout ?coze ''7400000000'' ?p =
        Inl unicode_encode_error \<or>
      (\<exists>r. workflows_runs_stream runtime_ascii_stdout ?coze ''7400000000'' ?p = Inr r \<and>
         (consume_events runtime_ascii_stdout (response_events r) [] = Inl unicode_encode_error \<or>
          (\<exists>t. consume_events runtime_ascii_stdout (response_events r) [] = Inr t \<and>
               response_error r = Some unicode_encode_error)))"
    by (simp add: example_simps abc_events_def event_text_def ascii_print_event_type)
  have d: "CHR 0x0A \<notin> set (exn_str stream_error)"
    by (simp add: stream_error_def)
  from remote_failure_banner[OF a(1) b(1) _ c1] d
  have "evaluate_project runtime_stream_raises ''X'' ''demo'' ''technology'' ''undergraduate''
     [''code'', ''docs''] =
   Inr (error_banner @ ''All connection attempts failed'' @ nl @ nl @
        evaluate_mock ''X'' ''demo'' ''technology'' ''undergraduate'' [''code'', ''docs'']) \<and>
   first_line_of
     (error_banner @ ''All connection attempts failed'' @ nl @ nl @
      evaluate_mock ''X'' ''demo'' ''technology'' ''undergraduate'' [''code'', ''docs'']) =
   error_banner @ ''All connection attempts failed''"
    by (auto simp: stream_error_def)
  moreover from remote_failure_banner[OF a(2) b(2) _ c2]
  have "evaluate_project runtime_stream_breaks ''X'' ''demo'' ''technology'' ''undergraduate''
     [''code'', ''docs''] =
   Inr (error_banner @ ''All connection attempts failed'' @ nl @ nl @
        evaluate_mock ''X'' ''demo'' ''technology'' ''undergraduate'' [''code'', ''docs''])"
    by (auto simp: stream_error_def)
  moreover from remote_failure_banner[OF a(3) b(3) _ c3]
  have "evaluate_project runtime_number_content ''X'' ''demo'' ''technology'' ''undergraduate''
     [''code'', ''docs''] =
   Inr (error_banner @
        (''unsupported operand type(s) for +: '' @ quoted ''int'' @ '' and '' @ quoted ''str'') @
        nl @ nl @
        evaluate_mock ''X'' ''demo'' ''technology'' ''undergraduate'' [''code'', ''docs''])"
    by (auto simp: type_error_def)
  moreover from remote_failure_banner[OF a(4) b(4) _ c4]
  have "evaluate_project runtime_ascii_stdout ''X'' ''demo'' ''technology'' ''undergraduate''
     [''code'', ''docs''] =
   Inr (error_banner @ ''ordinal not in range(128)'' @ nl @ nl @
        evaluate_mock ''X'' ''demo'' ''technology'' ''undergraduate'' [''code'', ''docs''])"
    by (auto simp: unicode_encode_error_def)
  ultimately show ?thesis by blast
qed

text \<open>
  C3 as stated fails: the text of the exception has two lines, so the first line of the
  output is the label and the first line of the text, not a banner of one line that
  holds \<open>str(e)\<close>.
\<close>

theorem two_line_error_banner:
  "evaluate_project runtime_two_line_error ''X'' ''demo'' ''technology'' ''undergraduate''
     [''code'', ''docs''] =
   Inr (error_banner @ exn_str two_line_error @ nl @ nl @
        evaluate_mock ''X'' ''demo'' ''technology'' ''undergraduate'' [''code'', ''docs'']) \<and>
   first_line_of
     (error_banner @ exn_str two_line_error @ nl @ nl @
      evaluate_mock ''X'' ''demo'' ''technology'' ''undergraduate'' [''code'', ''docs'']) =
   error_banner @ ''1 validation error for WorkflowEvent'' \<and>
   error_banner @ ''1 validation error for WorkflowEvent'' \<noteq>
   error_banner @ exn_str two_line_error"
proof -
  have a: "evaluate_project runtime_two_line_error ''X'' ''demo'' ''technology''
      ''undergraduate'' [''code'', ''docs''] =
    Inr (error_banner @ exn_str two_line_error @ nl @ nl @
        evaluate_mock ''X'' ''demo'' ''technology'' ''undergraduate'' [''code'', ''docs''])"
    by (simp add: evaluate_project_def evaluate_with_coze_def get_coze_client_def
        workflow_try_def example_simps)
  have "CHR 0x0A \<notin> set (error_banner @ ''1 validation error for WorkflowEvent'')"
    using error_banner_one_line by simp
  from first_line[OF this]
  have b: "first_line_of
     (error_banner @ exn_str two_line_error @ nl @ nl @
      evaluate_mock ''X'' ''demo'' ''technology'' ''undergraduate'' [''code'', ''docs'']) =
   error_banner @ ''1 validation error for WorkflowEvent''"
    by (simp add: two_line_error_def)
  have c: "error_banner @ ''1 validation error for WorkflowEvent'' \<noteq>
      error_banner @ exn_str two_line_error"
    by (simp add: two_line_error_def nl_def)
  from a b c show ?thesis by simp
qed




text \<open>
  C5. For a structured payload whose \<open>data\<close> field, looked up by attribute first and
  then by key, holds a string \<open>X\<close>, \<open>extract_markdown_text\<close> returns \<open>X\<close> as it is;
  so it does for a string that \<open>json.loads\<close> parses to such a payload. In particular
  the payload \<open>{"data": "X"}\<close> gives \<open>X\<close>.
\<close>

theorem data_field_round_trip:
  assumes "spec_data_field payload = Some (PStr X)"
  shows "extract_markdown_text rt payload = Inr X \<and>
         (json_loads rt s = Inr payload \<longrightarrow> extract_markdown_text rt (PStr s) = Inr X) \<and>
         extract_markdown_text rt (PDict [(''data'', PStr ''X'')]) = Inr ''X''"
proof -
  from assms have "\<not> is_str payload"
    by (cases payload) (simp_all add: spec_data_field_def)
  with assms have "extract_markdown_text rt payload = Inr X"
    by (simp add: extract_markdown_text_def extract_try_structured lookup_data_field)
  moreover from assms have "extract_markdown_text rt (PStr s) = Inr X"
    if "json_loads rt s = Inr payload"
    using that by (simp add: extract_markdown_text_def extract_try_parsed lookup_data_field)
  moreover have "extract_markdown_text rt (PDict [(''data'', PStr ''X'')]) = Inr ''X''"
    by (simp add: extract_markdown_text_def extract_try_def lookup_data_def)
  ultimately show ?thesis by simp
qed

text \<open>
  An object whose attribute \<open>data\<close> is found before its key \<open>data\<close>, a dict, and the
  text of a JSON document.
\<close>

theorem data_field_round_trip_witness:
  "extract_markdown_text example_runtime
     (PObj ''WorkflowRunResult'' [(''data'', PStr ''# Report'')]
        (Mapping [(''data'', PInt 1)])) =
   Inr ''# Report'' \<and>
   extract_markdown_text example_runtime
     (PDict [(''debug_url'', PStr ''u''), (''data'', PStr ''# Report'')]) = Inr ''# Report'' \<and>
   extract_markdown_text example_runtime (PStr data_X_document) = Inr ''X''"
proof -
  have a: "spec_data_field
      (PObj ''WorkflowRunResult'' [(''data'', PStr ''# Report'')]
         (Mapping [(''data'', PInt 1)])) =
      Some (PStr ''# Report'')"
    by (simp add: spec_data_field_def)
  have b: "spec_data_field (PDict [(''debug_url'', PStr ''u''), (''data'', PStr ''# Report'')]) =
      Some (PStr ''# Report'')"
    by (simp add: spec_data_field_def)
  have c: "spec_data_field (PDict [(''data'', PStr ''X'')]) = Some (PStr ''X'')"
    by (simp add: spec_data_field_def)
  have d: "json_loads example_runtime data_X_document = Inr (PDict [(''data'', PStr ''X'')])"
    by (simp add: example_runtime_def)
  from data_field_round_trip[OF a, of example_runtime]
    data_field_round_trip[OF b, of example_runtime]
    data_field_round_trip[OF c, of example_runtime data_X_document] d
  show ?thesis by simp
qed




text \<open>
  C7 (as amended). On the remote path, once the stream has been drained without an
  exception, the value handed to \<open>extract_markdown_text\<close> is the accumulated text when
  that is not empty, and the response object otherwise, and the outcome of the \<open>try\<close>
  is the outcome of the extraction on that value. When the extraction returns,
  \<open>evaluate_with_coze\<close> returns exactly its result; when it raises (the \<open>print\<close> of
  its handler has raised), the exception is caught and \<open>evaluate_with_coze\<close> returns
  the banner and the mock report.
\<close>

theorem drained_stream_is_extracted:
  assumes "get_coze_client rt = Inr (Some coze)"
    and "getenv rt ''WORKFLOW_ID'' = Some w" and "w \<noteq> []"
    and "workflows_runs_stream rt coze w (parameters_of n d f l ms) = Inr response"
    and "consume_events rt (response_events response) [] = Inr output_text"
    and "response_error response = None"
  shows "workflow_try rt coze w n d f l ms =
           extract_markdown_text rt
             (if output_text \<noteq> [] then PStr output_text else response_object response) \<and>
         (extract_markdown_text rt
            (if output_text \<noteq> [] then PStr output_text else response_object response) =
            Inr md \<longrightarrow>
          evaluate_with_coze rt n d f l ms = Inr md) \<and>
         (extract_markdown_text rt
            (if output_text \<noteq> [] then PStr output_text else response_object response) =
            Inl e \<longrightarrow>
          evaluate_with_coze rt n d f l ms =
            Inr (error_banner @ exn_str e @ nl @ nl @ evaluate_mock n d f l ms))"
proof -
  from assms(4-6) have "workflow_try rt coze w n d f l ms =
      extract_markdown_text rt
        (if output_text \<noteq> [] then PStr output_text else response_object response)"
    by (simp add: workflow_try_def)
  then show ?thesis
    using assms(1-3) by (simp add: evaluate_with_coze_remote)
qed

text \<open>
  A stream of three events, a stream with no event, and a stream of three events whose
  extraction raises.
\<close>

theorem drained_stream_is_extracted_witness:
  "evaluate_with_coze runtime_abc_stream ''X'' ''demo'' ''technology'' ''undergraduate''
     [''code'', ''docs''] = Inr (''a'' @ nl @ ''b'' @ nl @ ''c'' @ nl) \<and>
   evaluate_with_coze example_runtime ''X'' ''demo'' ''technology'' ''undergraduate''
     [''code'', ''docs''] = Inr ''<Stream>'' \<and>
   evaluate_with_coze runtime_print_breaks ''X'' ''demo'' ''technology'' ''undergraduate''
     [''code'', ''docs''] =
     Inr (error_banner @ ''[Errno 32] Broken pipe'' @ nl @ nl @
          evaluate_mock ''X'' ''demo'' ''technology'' ''undergraduate'' [''code'', ''docs''])"
proof -
  let ?coze = "Coze ''pat_token'' ''https://api.coze.cn''"
  let ?p = "parameters_of ''X'' ''demo'' ''technology'' ''undergraduate'' [''code'', ''docs'']"
  let ?abc = "''a'' @ nl @ ''b'' @ nl @ ''c'' @ nl"
  let ?json_error = "Exn ''JSONDecodeError'' ''Expecting value: line 1 column 1 (char 0)''"
  have a: "get_coze_client runtime_abc_stream = Inr (Some ?coze)"
    "get_coze_client example_runtime = Inr (Some ?coze)"
    "get_coze_client runtime_print_breaks = Inr (Some ?coze)"
    by (simp_all add: get_coze_client_def example_simps)
  have b: "getenv runtime_abc_stream ''WORKFLOW_ID'' = Some ''7400000000''"
    "getenv example_runtime ''WORKFLOW_ID'' = Some ''7400000000''"
    "getenv runtime_print_breaks ''WORKFLOW_ID'' = Some ''7400000000''"
    by (simp_all add: example_simps)
  have c: "workflows_runs_stream runtime_abc_stream ?coze ''7400000000'' ?p =
      Inr (Response (PObj ''Stream'' [] (Iterable [])) abc_events None)"
    "workflows_runs_stream example_runtime ?coze ''7400000000'' ?p =
      Inr (Response (PObj ''Stream'' [] (Iterable [])) [] None)"
    "workflows_runs_stream runtime_print_breaks ?coze ''7400000000'' ?p =
      Inr (Response (PObj ''Stream'' [] (Iterable [])) abc_events None)"
    by (simp_all add: example_simps)
  have d: "consume_events runtime_abc_stream
      (response_events (Response (PObj ''Stream'' [] (Iterable [])) abc_events None)) [] =
      Inr ?abc"
    "consume_events example_runtime
      (response_events (Response (PObj ''Stream'' [] (Iterable [])) [] None)) [] = Inr []"
    "consume_events runtime_print_breaks
      (response_events (Response (PObj ''Stream'' [] (Iterable [])) abc_events None)) [] =
      Inr ?abc"
    by (simp_all add: abc_events_def content_event_def event_text_def
        example_simps event_labels_differ)
  have e: "?abc \<noteq> []"
    by simp
  have f: "extract_markdown_text runtime_abc_stream (PStr ?abc) = Inr ?abc"
    by (simp add: extract_markdown_text_def extract_try_def example_simps data_X_document_def
        nl_def)
  have g: "extract_markdown_text example_runtime (PObj ''Stream'' [] (Iterable [])) =
      Inr ''<Stream>''"
    by (simp add: extract_markdown_text_def extract_try_def lookup_data_def example_simps)
  have h: "extract_markdown_text runtime_print_breaks (PStr ?abc) = Inl broken_pipe"
    by (simp add: extract_markdown_text_def extract_try_def example_simps data_X_document_def
        nl_def)
  from drained_stream_is_extracted[OF a(1) b(1) _ c(1) d(1), of ?abc] e f
  have "evaluate_with_coze runtime_abc_stream ''X'' ''demo'' ''technology'' ''undergraduate''
     [''code'', ''docs''] = Inr ?abc"
    by simp
  moreover from drained_stream_is_extracted[OF a(2) b(2) _ c(2) d(2), of "''<Stream>''"] g
  have "evaluate_with_coze example_runtime ''X'' ''demo'' ''technology'' ''undergraduate''
     [''code'', ''docs''] = Inr ''<Stream>''"
    by simp
  moreover from drained_stream_is_extracted[OF a(3) b(3) _ c(3) d(3), of _ broken_pipe] e h
  have "evaluate_with_coze runtime_print_breaks ''X'' ''demo'' ''technology'' ''undergraduate''
     [''code'', ''docs''] =
     Inr (error_banner @ ''[Errno 32] Broken pipe'' @ nl @ nl @
          evaluate_mock ''X'' ''demo'' ''technology'' ''undergraduate'' [''code'', ''docs''])"
    by (simp add: broken_pipe_def)
  ultimately show ?thesis by simp
qed

text \<open>
  C7 as stated fails: the three events are drained, the accumulated text is handed to
  the extraction, \<open>json.loads\<close> rejects it, the handler's \<open>print\<close> raises, and the
  return value of \<open>evaluate_with_coze\<close> is the banner and the mock report, not a
  result of the extraction.
\<close>

theorem extraction_error_is_caught:
  "consume_events runtime_print_breaks abc_events [] = Inr (''a'' @ nl @ ''b'' @ nl @ ''c'' @ nl) \<and>
   extract_markdown_text runtime_print_breaks (PStr (''a'' @ nl @ ''b'' @ nl @ ''c'' @ nl)) =
     Inl broken_pipe \<and>
   evaluate_with_coze runtime_print_breaks ''X'' ''demo'' ''technology'' ''undergraduate''
     [''code'', ''docs''] =
     Inr (error_banner @ exn_str broken_pipe @ nl @ nl @
          evaluate_mock ''X'' ''demo'' ''technology'' ''undergraduate'' [''code'', ''docs''])"
  by (simp add: evaluate_with_coze_def get_coze_client_def workflow_try_def
      extract_markdown_text_def extract_try_def abc_events_def content_event_def event_text_def
      example_simps event_labels_differ data_X_document_def nl_def)

text \<open>
  C8. \<open>evaluate_mock\<close> is a total function of the request (no branch of it raises),
  and its output contains the project name, the project field, the student level, the
  materials joined by \<open>", "\<close>, and the project description as a line of its own,
  character for character.
\<close>

theorem evaluate_mock_contains_fields:
  "sublist project_name
     (evaluate_mock project_name project_description project_field student_level materials) \<and>
   sublist project_field
     (evaluate_mock project_name project_description project_field student_level materials) \<and>
   sublist student_level
     (evaluate_mock project_name project_description project_field student_level materials) \<and>
   sublist (join '', '' materials)
     (evaluate_mock project_name project_description project_field student_level materials) \<and>
   sublist (nl @ project_description @ nl)
     (evaluate_mock project_name project_description project_field student_level materials)"
proof -
  let ?out = "evaluate_mock project_name project_description project_field student_level
    materials"
  have "sublist project_name ?out"
    unfolding evaluate_mock_def by (rule sublist_here | rule sublist_skip)+
  moreover have "sublist project_field ?out"
    unfolding evaluate_mock_def by (rule sublist_here | rule sublist_skip)+
  moreover have "sublist student_level ?out"
    unfolding evaluate_mock_def by (rule sublist_here | rule sublist_skip)+
  moreover have "sublist (join '', '' materials) ?out"
    unfolding evaluate_mock_def by (rule sublist_here | rule sublist_skip)+
  moreover have "sublist (nl @ project_description @ nl) ?out"
    unfolding evaluate_mock_def by (rule sublist_here3 | rule sublist_skip)+
  ultimately show ?thesis by simp
qed

text \<open>The request of the specification's scenario.\<close>

theorem evaluate_mock_contains_fields_witness:
  "sublist ''X''
     (evaluate_mock ''X'' ''demo'' ''technology'' ''undergraduate'' [''code'', ''docs'']) \<and>
   sublist ''technology''
     (evaluate_mock ''X'' ''demo'' ''technology'' ''undergraduate'' [''code'', ''docs'']) \<and>
   sublist ''undergraduate''
     (evaluate_mock ''X'' ''demo'' ''technology'' ''undergraduate'' [''code'', ''docs'']) \<and>
   sublist ''code, docs''
     (evaluate_mock ''X'' ''demo'' ''technology'' ''undergraduate'' [''code'', ''docs'']) \<and>
   sublist (nl @ ''demo'' @ nl)
     (evaluate_mock ''X'' ''demo'' ''technology'' ''undergraduate'' [''code'', ''docs''])"
  using evaluate_mock_contains_fields[of "''X''" "''demo''" "''technology''" "''undergraduate''"
      "[''code'', ''docs'']"]
  by simp

text \<open>
  C9. \<open>evaluate_mock\<close> is deterministic: equal inputs give equal outputs. It reads
  nothing but its five arguments: the output is seven fixed strings with the arguments
  (and the joined materials) between them, and the five scores are literals of the
  fixed text.
\<close>

theorem evaluate_mock_deterministic:
  assumes "n = n'" and "d = d'" and "f = f'" and "l = l'" and "ms = ms'"
  shows "evaluate_mock n d f l ms = evaluate_mock n' d' f' l' ms' \<and>
         (\<exists>s0 s1 s2 s3 s4 s5 s6.
            sublist scores_block s5 \<and>
            (\<forall>a b c e xs.
               evaluate_mock a b c e xs =
                 s0 @ a @ s1 @ c @ s2 @ e @ s3 @ join '', '' xs @ s4 @ b @ s5 @ c @ s6)) \<and>
         sublist ''8.2/10'' scores_block \<and> sublist ''7.5/10'' scores_block \<and>
         sublist ''8.0/10'' scores_block \<and> sublist ''8.5/10'' scores_block \<and>
         sublist ''7.0/10'' scores_block"
  using assms evaluate_mock_template scores_are_literals by blast

text \<open>Two requests built differently and equal.\<close>

theorem evaluate_mock_deterministic_witness:
  "evaluate_mock ''X'' ''demo'' ''technology'' ''undergraduate'' [''code'', ''docs''] =
   evaluate_mock ''X'' (''de'' @ ''mo'') ''technology'' ''undergraduate''
     ([''code''] @ [''docs'']) \<and>
   sublist ''8.2/10'' scores_block"
  using evaluate_mock_deterministic[of "''X''" "''X''" "''demo''" "''de'' @ ''mo''"
      "''technology''" "''technology''" "''undergraduate''" "''undergraduate''"
      "[''code'', ''docs'']" "[''code''] @ [''docs'']"]
  by simp

text \<open>
  C10. With an empty list of materials \<open>evaluate_mock\<close> returns the full report: the
  comma-join of the empty list is the empty string, and the output is the whole
  template, with the name, the field, the level and the description in their places
  and the materials label followed directly by the end of its line. It differs from the
  report for any other list of materials only by the joined materials after the label.
\<close>

theorem evaluate_mock_no_materials:
  "join '', '' [] = [] \<and>
   evaluate_mock project_name project_description project_field student_level [] =
     nl @
     ''# '' @ utf8 [0x1F393] @ '' '' @ utf8 [0x9879, 0x76EE, 0x8BC4, 0x4EF7, 0x62A5, 0x544A] @
       '' ('' @ utf8 [0x6A21, 0x62DF, 0x6570, 0x636E] @ '')'' @ nl @
     nl @
     ''## '' @ utf8 [0x9879, 0x76EE, 0x4FE1, 0x606F] @ nl @
     ''- **'' @ utf8 [0x9879, 0x76EE, 0x540D, 0x79F0] @ ''**: '' @ project_name @ nl @
     ''- **'' @ utf8 [0x9879, 0x76EE, 0x9886, 0x57DF] @ ''**: '' @ project_field @ nl @
     ''- **'' @ utf8 [0x5B66, 0x751F, 0x6C34, 0x5E73] @ ''**: '' @ student_level @ nl @
     ''- **'' @ utf8 [0x63D0, 0x4EA4, 0x6750, 0x6599] @ ''**: '' @ nl @
     nl @
     ''## '' @ utf8 [0x9879, 0x76EE, 0x63CF, 0x8FF0] @ nl @
     project_description @ nl @
     nl @
     scores_block @
     nl @
     strengths_block @
     nl @
     suggestions_block @
     nl @
     ''## '' @ utf8 [0x5B66, 0x4E60, 0x6536, 0x83B7] @ nl @
     utf8 [0x901A, 0x8FC7, 0x672C, 0x9879, 0x76EE, 0xFF0C, 0x5B66, 0x751F, 0x80FD, 0x591F,
           0x638C, 0x63E1] @ ''**'' @ project_field @ ''**'' @
       utf8 [0x9886, 0x57DF, 0x7684, 0x57FA, 0x7840, 0x77E5, 0x8BC6, 0x548C, 0x5B9E, 0x8DF5,
             0x6280, 0x80FD, 0xFF0C, 0x63D0, 0x5347, 0x95EE, 0x9898, 0x89E3, 0x51B3, 0x80FD,
             0x529B, 0x548C, 0x56E2, 0x961F, 0x534F, 0x4F5C, 0x80FD, 0x529B, 0x3002] @ nl @
     nl @
     followup_block @
     nl @
     ''---'' @ nl @
     nl @
     disclaimer_line \<and>
   (\<exists>before after.
      (\<forall>materials.
         evaluate_mock project_name project_description project_field student_level materials =
           before @ materials_label @ join '', '' materials @ nl @ after) \<and>
      evaluate_mock project_name project_description project_field student_level [] =
        before @ materials_label @ nl @ after) \<and>
   sublist project_name
     (evaluate_mock project_name project_description project_field student_level []) \<and>
   sublist project_field
     (evaluate_mock project_name project_description project_field student_level []) \<and>
   sublist student_level
     (evaluate_mock project_name project_description project_field student_level []) \<and>
   sublist (nl @ project_description @ nl)
     (evaluate_mock project_name project_description project_field student_level []) \<and>
   sublist (materials_label @ nl)
     (evaluate_mock project_name project_description project_field student_level [])"
proof -
  let ?out = "evaluate_mock project_name project_description project_field student_level []"
  let ?before = "nl @
     ''# '' @ utf8 [0x1F393] @ '' '' @ utf8 [0x9879, 0x76EE, 0x8BC4, 0x4EF7, 0x62A5, 0x544A] @
       '' ('' @ utf8 [0x6A21, 0x62DF, 0x6570, 0x636E] @ '')'' @ nl @
     nl @
     ''## '' @ utf8 [0x9879, 0x76EE, 0x4FE1, 0x606F] @ nl @
     ''- **'' @ utf8 [0x9879, 0x76EE, 0x540D, 0x79F0] @ ''**: '' @ project_name @ nl @
     ''- **'' @ utf8 [0x9879, 0x76EE, 0x9886, 0x57DF] @ ''**: '' @ project_field @ nl @
     ''- **'' @ utf8 [0x5B66, 0x751F, 0x6C34, 0x5E73] @ ''**: '' @ student_level @ nl"
  let ?after = "nl @
     ''## '' @ utf8 [0x9879, 0x76EE, 0x63CF, 0x8FF0] @ nl @
     project_description @ nl @
     nl @
     scores_block @
     nl @
     strengths_block @
     nl @
     suggestions_block @
     nl @
     ''## '' @ utf8 [0x5B66, 0x4E60, 0x6536, 0x83B7] @ nl @
     utf8 [0x901A, 0x8FC7, 0x672C, 0x9879, 0x76EE, 0xFF0C, 0x5B66, 0x751F, 0x80FD, 0x591F,
           0x638C, 0x63E1] @ ''**'' @ project_field @ ''**'' @
       utf8 [0x9886, 0x57DF, 0x7684, 0x57FA, 0x7840, 0x77E5, 0x8BC6, 0x548C, 0x5B9E, 0x8DF5,
             0x6280, 0x80FD, 0xFF0C, 0x63D0, 0x5347, 0x95EE, 0x9898, 0x89E3, 0x51B3, 0x80FD,
             0x529B, 0x548C, 0x56E2, 0x961F, 0x534F, 0x4F5C, 0x80FD, 0x529B, 0x3002] @ nl @
     nl @
     followup_block @
     nl @
     ''---'' @ nl @
     nl @
     disclaimer_line"
  have whole: "?out = ?before @ (''- **'' @ utf8 [0x63D0, 0x4EA4, 0x6750, 0x6599] @ ''**: '') @
      nl @ ?after"
    by (simp add: evaluate_mock_def materials_label_def)
  have general: "\<forall>materials.
      evaluate_mock project_name project_description project_field student_level materials =
        ?before @ materials_label @ join '', '' materials @ nl @ ?after"
    by (simp add: evaluate_mock_def)
  then have empty: "?out = ?before @ materials_label @ nl @ ?after"
    by simp
  from general empty have shape: "\<exists>before after.
      (\<forall>materials.
         evaluate_mock project_name project_description project_field student_level materials =
           before @ materials_label @ join '', '' materials @ nl @ after) \<and>
      ?out = before @ materials_label @ nl @ after"
    by blast
  have a: "sublist project_name ?out"
    unfolding evaluate_mock_def by (rule sublist_here | rule sublist_skip)+
  have b: "sublist project_field ?out"
    unfolding evaluate_mock_def by (rule sublist_here | rule sublist_skip)+
  have c: "sublist student_level ?out"
    unfolding evaluate_mock_def by (rule sublist_here | rule sublist_skip)+
  have d: "sublist (nl @ project_description @ nl) ?out"
    unfolding evaluate_mock_def by (rule sublist_here3 | rule sublist_skip)+
  have e: "sublist (materials_label @ nl) ?out"
    unfolding empty by (rule sublist_here2 | rule sublist_skip)+
  from whole shape a b c d e show ?thesis
    by simp
qed

text \<open>The report for the scenario's fields and no materials.\<close>

theorem evaluate_mock_no_materials_witness:
  "evaluate_mock ''X'' ''demo'' ''technology'' ''undergraduate'' [] =
     nl @
     ''# '' @ utf8 [0x1F393] @ '' '' @ utf8 [0x9879, 0x76EE, 0x8BC4, 0x4EF7, 0x62A5, 0x544A] @
       '' ('' @ utf8 [0x6A21, 0x62DF, 0x6570, 0x636E] @ '')'' @ nl @
     nl @
     ''## '' @ utf8 [0x9879, 0x76EE, 0x4FE1, 0x606F] @ nl @
     ''- **'' @ utf8 [0x9879, 0x76EE, 0x540D, 0x79F0] @ ''**: '' @ ''X'' @ nl @
     ''- **'' @ utf8 [0x9879, 0x76EE, 0x9886, 0x57DF] @ ''**: '' @ ''technology'' @ nl @
     ''- **'' @ utf8 [0x5B66, 0x751F, 0x6C34, 0x5E73] @ ''**: '' @ ''undergraduate'' @ nl @
     ''- **'' @ utf8 [0x63D0, 0x4EA4, 0x6750, 0x6599] @ ''**: '' @ nl @
     nl @
     ''## '' @ utf8 [0x9879, 0x76EE, 0x63CF, 0x8FF0] @ nl @
     ''demo'' @ nl @
     nl @
     scores_block @
     nl @
     strengths_block @
     nl @
     suggestions_block @
     nl @
     ''## '' @ utf8 [0x5B66, 0x4E60, 0x6536, 0x83B7] @ nl @
     utf8 [0x901A, 0x8FC7, 0x672C, 0x9879, 0x76EE, 0xFF0C, 0x5B66, 0x751F, 0x80FD, 0x591F,
           0x638C, 0x63E1] @ ''**'' @ ''technology'' @ ''**'' @
       utf8 [0x9886, 0x57DF, 0x7684, 0x57FA, 0x7840, 0x77E5, 0x8BC6, 0x548C, 0x5B9E, 0x8DF5,
             0x6280, 0x80FD, 0xFF0C, 0x63D0, 0x5347, 0x95EE, 0x9898, 0x89E3, 0x51B3, 0x80FD,
             0x529B, 0x548C, 0x56E2, 0x961F, 0x534F, 0x4F5C, 0x80FD, 0x529B, 0x3002] @ nl @
     nl @
     followup_block @
     nl @
     ''---'' @ nl @
     nl @
     disclaimer_line"
  using evaluate_mock_no_materials[of "''X''" "''demo''" "''technology''" "''undergraduate''"]
  by blast

end
